theory Spec2Isabelle
  imports Main "HOL-Library.Sublist"
begin

section \<open>Python exceptions\<close>

text \<open>
  The exceptions that \<open>tasksB.py\<close> and the libraries under it raise by name; \<open>External\<close>
  stands for any other exception of a library, carried through unchanged.
\<close>

datatype pyerror =
    PermissionError
  | TypeError
  | ValueError
  | FileNotFoundError
  | ModuleNotFoundError
  | HTTPError
  | CalledProcessError
  | External string

section \<open>Strings and POSIX paths, as \<open>tasksB.py\<close> uses them\<close>

text \<open>
  \<open>tasksB.py\<close> decides every path with \<open>os.path.abspath\<close> and \<open>str.startswith\<close>.
  The sandbox root \<open>/data\<close> is a POSIX path, so \<open>os.path\<close> is \<open>posixpath\<close>; its
  \<open>join\<close>, \<open>normpath\<close> and \<open>abspath\<close> are transcribed below statement by statement.
  What \<open>os.getcwd()\<close> answers is the first argument \<open>getcwd\<close> of \<open>abspath\<close>: the
  working directory, or the exception it raises when that directory has been removed.
\<close>

definition startswith :: "string \<Rightarrow> string \<Rightarrow> bool" where
  \<comment> \<open>\<open>s.startswith(p)\<close>\<close>
  "startswith s p = (take (length p) s = p)"

definition endswith :: "string \<Rightarrow> string \<Rightarrow> bool" where
  \<comment> \<open>\<open>s.endswith(p)\<close>\<close>
  "endswith s p = (length p \<le> length s \<and> drop (length s - length p) s = p)"

fun split_from :: "string \<Rightarrow> string \<Rightarrow> string list" where
  \<comment> \<open>scanning for \<open>'/'\<close>; \<open>cur\<close> is the piece read since the last one\<close>
  "split_from cur [] = [cur]"
| "split_from cur (c # cs) =
     (if c = CHR ''/'' then cur # split_from [] cs else split_from (cur @ [c]) cs)"

definition split_sep :: "string \<Rightarrow> string list" where
  \<comment> \<open>\<open>path.split('/')\<close>: never empty, \<open>''.split('/') == ['']\<close>\<close>
  "split_sep path = split_from [] path"

fun join_sep :: "string list \<Rightarrow> string" where
  \<comment> \<open>\<open>'/'.join(comps)\<close>\<close>
  "join_sep [] = []"
| "join_sep [x] = x"
| "join_sep (x # y # ys) = x @ ''/'' @ join_sep (y # ys)"

definition path_join :: "string \<Rightarrow> string \<Rightarrow> string" where
  \<comment> \<open>\<open>posixpath.join(a, b)\<close> with one component \<open>b\<close>\<close>
  "path_join a b =
     (if startswith b ''/'' then b
      else if a = [] \<or> endswith a ''/'' then a @ b
      else a @ ''/'' @ b)"

definition initial_slashes :: "string \<Rightarrow> nat" where
  \<comment> \<open>POSIX keeps exactly two leading slashes apart; three or more count as one.\<close>
  "initial_slashes path =
     (if startswith path ''/'' then
        (if startswith path ''//'' \<and> \<not> startswith path ''///'' then 2 else 1)
      else 0)"

definition norm_step :: "nat \<Rightarrow> string list \<Rightarrow> string \<Rightarrow> string list" where
  \<comment> \<open>one round of the loop \<open>for comp in comps\<close> of \<open>normpath\<close>; \<open>cmp\<close> is \<open>comp\<close>\<close>
  "norm_step slashes new_comps cmp =
     (if cmp = [] \<or> cmp = ''.'' then new_comps
      else if cmp \<noteq> ''..'' \<or> (slashes = 0 \<and> new_comps = [])
              \<or> (new_comps \<noteq> [] \<and> last new_comps = ''..'')
           then new_comps @ [cmp]
      else if new_comps \<noteq> [] then butlast new_comps
      else new_comps)"

definition normpath :: "string \<Rightarrow> string" where
  "normpath path =
     (if path = [] then ''.''
      else
        let slashes = initial_slashes path;
            comps = foldl (norm_step slashes) [] (split_sep path);
            joined = join_sep comps;
            res = (if slashes \<noteq> 0 then replicate slashes CHR ''/'' @ joined else joined)
        in if res = [] then ''.'' else res)"

definition abspath :: "pyerror + string \<Rightarrow> string \<Rightarrow> pyerror + string" where
  \<comment> \<open>\<open>os.getcwd()\<close> is called for a relative path only\<close>
  "abspath getcwd path =
     (if \<not> startswith path ''/'' then
        (case getcwd of
           Inl e \<Rightarrow> Inl e
         | Inr cwd \<Rightarrow> Inr (normpath (path_join cwd path)))
      else Inr (normpath path))"

section \<open>Python values\<close>

text \<open>
  The guard is handed whatever the caller passes. \<open>os.fspath\<close> accepts \<open>str\<close> and
  \<open>bytes\<close> and raises \<open>TypeError\<close> on anything else; a \<open>bytes\<close> path comes back from
  \<open>abspath\<close> as \<open>bytes\<close>, and \<open>bytes.startswith\<close> raises \<open>TypeError\<close> on the \<open>str\<close>
  root.
\<close>

datatype pyval = Str string | Bytes string | NotAPath

section \<open>The sandbox guard\<close>

definition B12 :: "pyerror + string \<Rightarrow> pyval \<Rightarrow> pyerror + bool" where
  "B12 getcwd filepath =
     (case filepath of
        Str s \<Rightarrow>
          (case abspath getcwd s of
             Inl e \<Rightarrow> Inl e
           | Inr normalized \<Rightarrow>
               (case abspath getcwd ''/data'' of
                  Inl e \<Rightarrow> Inl e
                | Inr allowed_dir \<Rightarrow> Inr (startswith normalized allowed_dir)))
      | Bytes b \<Rightarrow> Inl TypeError
      | NotAPath \<Rightarrow> Inl TypeError)"

text \<open>
  The specification's reading of containment, for comparison with \<open>B12\<close>: the
  normalized path, cut into its non-empty segments, begins with the segments of the root.
\<close>

definition segments :: "string \<Rightarrow> string list" where
  "segments path = filter (\<lambda>c. c \<noteq> []) (split_sep path)"

definition spec_guard :: "pyerror + string \<Rightarrow> string \<Rightarrow> pyerror + bool" where
  "spec_guard getcwd p =
     (case abspath getcwd p of
        Inl e \<Rightarrow> Inl e
      | Inr normalized \<Rightarrow>
          (case abspath getcwd ''/data'' of
             Inl e \<Rightarrow> Inl e
           | Inr root \<Rightarrow> Inr (prefix (segments root) (segments normalized))))"

section \<open>The outside world and the effects of a task\<close>

text \<open>
  Every task calls out: HTTP, git, a database, files, an image codec, a module import,
  a transcription service. What the outside answers is a field of \<open>world\<close>; an answer
  \<open>Inl e\<close> (or \<open>Some e\<close>) is the exception \<open>e\<close> raised by that call. What a task does to
  the outside is the list of \<open>event\<close>s it returns, in program order, next to its result or
  exception. A task runs in a world that has a working directory, the field \<open>cwd\<close>.
\<close>

datatype engine = Sqlite | Duckdb

datatype cell = SqlNull | SqlInt int | SqlText string

type_synonym row = "cell list"

record response =
  status_code :: nat
  resp_text :: string

datatype event =
    HttpGet string
  | SubprocessRun "string list"
  | OpenWrite string string
  | OpenRead string
  | DbConnect engine string
  | DbExecute string
  | DbFetchAll
  | DbClose
  | ImageOpen string
  | ImageResize "nat \<times> nat"
  | ImageSave string
  | ImportModule string
  | ApiTranscribe string string
  | Print string

record world =
  cwd :: string
  environ :: "string \<Rightarrow> string option"
  import_module :: "string \<Rightarrow> pyerror option"
  requests_get :: "string \<Rightarrow> pyerror + response"
  subprocess_run :: "string list \<Rightarrow> pyerror + int"
  file_write :: "string \<Rightarrow> string \<Rightarrow> pyerror option"
  file_read :: "string \<Rightarrow> pyerror + string"
  db_connect :: "engine \<Rightarrow> string \<Rightarrow> pyerror option"
  db_execute :: "engine \<Rightarrow> string \<Rightarrow> string \<Rightarrow> pyerror + row list"
  str_rows :: "row list \<Rightarrow> string"
  image_open :: "string \<Rightarrow> pyerror + string"
  image_resize :: "string \<Rightarrow> nat \<times> nat \<Rightarrow> pyerror + string"
  image_save :: "string \<Rightarrow> string \<Rightarrow> pyerror option"
  transcribe :: "string \<Rightarrow> string \<Rightarrow> string \<Rightarrow> pyerror + (string \<Rightarrow> string option)"
  markdown :: "string \<Rightarrow> string"

type_synonym 'a io = "event list \<times> (pyerror + 'a)"

definition return_io :: "'a \<Rightarrow> 'a io" where
  "return_io x = ([], Inr x)"

definition raise :: "pyerror \<Rightarrow> 'a io" where
  "raise e = ([], Inl e)"

definition bind_io :: "'a io \<Rightarrow> ('a \<Rightarrow> 'b io) \<Rightarrow> 'b io" where
  \<comment> \<open>statement sequencing: an exception skips the rest, the events so far stay\<close>
  "bind_io m f =
     (case m of
        (es, Inl e) \<Rightarrow> (es, Inl e)
      | (es, Inr x) \<Rightarrow> (case f x of (es', r) \<Rightarrow> (es @ es', r)))"

definition perform :: "event \<Rightarrow> pyerror + 'a \<Rightarrow> 'a io" where
  \<comment> \<open>one call to the outside, with what the outside answers\<close>
  "perform ev answer = ([ev], answer)"

definition outcome :: "pyerror option \<Rightarrow> pyerror + unit" where
  "outcome r = (case r of None \<Rightarrow> Inr () | Some e \<Rightarrow> Inl e)"

definition write_file :: "world \<Rightarrow> string \<Rightarrow> string \<Rightarrow> unit io" where
  \<comment> \<open>\<open>with open(path, 'w', encoding='utf-8') as file: file.write(content)\<close>\<close>
  "write_file w path content =
     perform (OpenWrite path content) (outcome (file_write w path content))"

definition print :: "string \<Rightarrow> unit io" where
  "print msg = perform (Print msg) (Inr ())"

definition not_B12 :: "world \<Rightarrow> string \<Rightarrow> bool io" where
  \<comment> \<open>the expression \<open>not B12(path)\<close>\<close>
  "not_B12 w path =
     (case B12 (Inr (cwd w)) (Str path) of Inl e \<Rightarrow> raise e | Inr ok \<Rightarrow> return_io (\<not> ok))"

definition or_io :: "bool io \<Rightarrow> bool io \<Rightarrow> bool io" where
  \<comment> \<open>Python's \<open>or\<close>: the right operand is evaluated only when the left is false\<close>
  "or_io a b = bind_io a (\<lambda>x. if x then return_io True else b)"

definition deny :: "bool io \<Rightarrow> unit io" where
  \<comment> \<open>\<open>if <cond>: raise PermissionError("Access outside /data is not allowed.")\<close>\<close>
  "deny cond = bind_io cond (\<lambda>c. if c then raise PermissionError else return_io ())"

definition raise_for_status :: "response \<Rightarrow> unit io" where
  \<comment> \<open>\<open>requests\<close>: a 4xx or 5xx status raises \<open>HTTPError\<close>\<close>
  "raise_for_status r =
     (if 400 \<le> status_code r \<and> status_code r < 600 then raise HTTPError else return_io ())"

definition run_checked :: "world \<Rightarrow> string list \<Rightarrow> unit io" where
  \<comment> \<open>\<open>subprocess.run(args, check=True)\<close>\<close>
  "run_checked w args =
     bind_io (perform (SubprocessRun args) (subprocess_run w args))
       (\<lambda>returncode. if returncode \<noteq> 0 then raise CalledProcessError else return_io ())"

section \<open>The tasks\<close>

definition B3 :: "world \<Rightarrow> string \<Rightarrow> string \<Rightarrow> unit io" where
  "B3 w url save_path =
     bind_io (deny (not_B12 w save_path)) (\<lambda>_.
     bind_io (perform (HttpGet url) (requests_get w url)) (\<lambda>response.
     bind_io (raise_for_status response) (\<lambda>_.
     bind_io (write_file w save_path (resp_text response)) (\<lambda>_.
     print (''Data fetched from '' @ url @ '' and saved to '' @ save_path)))))"


definition B5 :: "world \<Rightarrow> string \<Rightarrow> string \<Rightarrow> string \<Rightarrow> (row list) io" where
  "B5 w db_path query output_filename =
     bind_io (deny (or_io (not_B12 w db_path) (not_B12 w output_filename))) (\<lambda>_.
     let eng = (if endswith db_path ''.db'' then Sqlite else Duckdb) in
     bind_io (perform (DbConnect eng db_path) (outcome (db_connect w eng db_path))) (\<lambda>_.
     bind_io (perform (DbExecute query) (db_execute w eng db_path query)) (\<lambda>rows.
     bind_io (perform DbFetchAll (Inr rows)) (\<lambda>result.
     bind_io (perform DbClose (Inr ())) (\<lambda>_.
     bind_io (write_file w output_filename (str_rows w result)) (\<lambda>_.
     bind_io (print (''SQL query executed on '' @ db_path @ '' and results written to ''
                     @ output_filename)) (\<lambda>_.
     return_io result)))))))"

definition B6 :: "world \<Rightarrow> string \<Rightarrow> string \<Rightarrow> unit io" where
  "B6 w url output_filename =
     bind_io (deny (not_B12 w output_filename)) (\<lambda>_.
     bind_io (perform (HttpGet url) (requests_get w url)) (\<lambda>response.
     let result = resp_text response in
     bind_io (write_file w output_filename result) (\<lambda>_.
     print (''Web content from '' @ url @ '' written to '' @ output_filename))))"


definition B8 :: "world \<Rightarrow> string \<Rightarrow> string \<Rightarrow> string io" where
  "B8 w audio_path output_path =
     bind_io (deny (or_io (not_B12 w audio_path) (not_B12 w output_path))) (\<lambda>_.
     bind_io (perform (ImportModule ''openai'') (outcome (import_module w ''openai''))) (\<lambda>_.
     case environ w ''OPENAI_API_KEY'' of
       None \<Rightarrow> raise ValueError
     | Some api_key \<Rightarrow>
         bind_io (perform (OpenRead audio_path) (file_read w audio_path)) (\<lambda>audio_file.
         bind_io (perform (ApiTranscribe ''whisper-1'' audio_file)
                    (transcribe w api_key ''whisper-1'' audio_file)) (\<lambda>transcript.
         let transcription_text = (case transcript ''text'' of None \<Rightarrow> [] | Some t \<Rightarrow> t) in
         bind_io (write_file w output_path transcription_text) (\<lambda>_.
         bind_io (print (''Audio from '' @ audio_path @ '' transcribed and saved to ''
                         @ output_path)) (\<lambda>_.
         return_io transcription_text))))))"


section \<open>A concrete world for running the tasks\<close>

text \<open>
  A working directory outside the sandbox, no API key in the environment, every module
  installed, a web server that knows one page and answers 404 for every other, and calls
  that succeed otherwise.
\<close>

definition test_world :: world where
  "test_world =
     \<lparr> cwd = ''/app'',
       environ = (\<lambda>_. None),
       import_module = (\<lambda>_. None),
       requests_get = (\<lambda>url. if url = ''http://example.com/ok''
                             then Inr \<lparr>status_code = 200, resp_text = ''hello''\<rparr>
                             else Inr \<lparr>status_code = 404, resp_text = ''Not Found''\<rparr>),
       subprocess_run = (\<lambda>_. Inr 0),
       file_write = (\<lambda>_ _. None),
       file_read = (\<lambda>_. Inr ''content''),
       db_connect = (\<lambda>_ _. None),
       db_execute = (\<lambda>_ _ _. Inr [[SqlInt 1]]),
       str_rows = (\<lambda>_. ''[(1,)]''),
       image_open = (\<lambda>_. Inr ''image''),
       image_resize = (\<lambda>img _. Inr img),
       image_save = (\<lambda>_ _. None),
       transcribe = (\<lambda>_ _ _. Inr (\<lambda>_. None)),
       markdown = (\<lambda>s. s) \<rparr>"

section \<open>Facts about the path functions and the effect sequencing\<close>

lemmas path_defs = abspath_def normpath_def initial_slashes_def startswith_def norm_step_def
  path_join_def endswith_def split_sep_def

lemmas io_defs = bind_io_def raise_def return_io_def perform_def outcome_def write_file_def
  print_def not_B12_def or_io_def deny_def raise_for_status_def run_checked_def

lemma abspath_root: "abspath wd ''/data'' = Inr ''/data''"
  by (simp add: path_defs)

lemma abspath_absolute: "startswith p ''/'' \<Longrightarrow> abspath wd p = Inr (normpath p)"
  by (simp add: abspath_def)

lemma abspath_relative:
  "\<not> startswith p ''/'' \<Longrightarrow> abspath (Inr d) p = Inr (normpath (path_join d p))"
  "\<not> startswith p ''/'' \<Longrightarrow> abspath (Inl e) p = Inl e"
  by (simp_all add: abspath_def)

lemma B12_absolute:
  "startswith s ''/'' \<Longrightarrow> B12 wd (Str s) = Inr (startswith (normpath s) ''/data'')"
  by (simp add: B12_def abspath_root abspath_absolute)

lemma B12_relative:
  "\<not> startswith s ''/''
   \<Longrightarrow> B12 (Inr d) (Str s) = Inr (startswith (normpath (path_join d s)) ''/data'')"
  by (simp add: B12_def abspath_root abspath_relative)

lemma B12_relative_no_cwd:
  "\<not> startswith s ''/'' \<Longrightarrow> B12 (Inl e) (Str s) = Inl e"
  by (simp add: B12_def abspath_relative)

lemma B12_with_cwd: "\<exists>b. B12 (Inr d) (Str s) = Inr b"
  by (cases "startswith s ''/''") (simp_all add: B12_absolute B12_relative)

lemma B12_not_str: "B12 wd (Bytes b) = Inl TypeError" "B12 wd NotAPath = Inl TypeError"
  by (simp_all add: B12_def)

lemma B12_absolute_any_cwd:
  "startswith p ''/'' \<Longrightarrow> B12 wd (Str p) = B12 wd' (Str p)"
  by (simp add: B12_absolute)


lemma bind_return: "bind_io (return_io x) f = f x"
  by (simp add: bind_io_def return_io_def split: prod.splits)


lemma deny1_ok:
  "B12 (Inr (cwd w)) (Str p) = Inr True \<Longrightarrow> deny (not_B12 w p) = return_io ()"
  by (simp add: io_defs)


lemma deny2_ok:
  "B12 (Inr (cwd w)) (Str p) = Inr True \<Longrightarrow> B12 (Inr (cwd w)) (Str q) = Inr True
   \<Longrightarrow> deny (or_io (not_B12 w p) (not_B12 w q)) = return_io ()"
  by (simp add: io_defs)

section \<open>The guard on the paths the specification names\<close>

text \<open>
  C1. The specification wants the guard true exactly when the normalized path begins
  with the root's segments. \<open>B12\<close> compares characters, not segments: at \<open>/database\<close>
  it answers true although the segments \<open>[database]\<close> do not begin with \<open>[data]\<close>.
\<close>

theorem B12_not_segmentwise:
  "B12 wd (Str ''/database'') = Inr True \<and> spec_guard wd ''/database'' = Inr False"
  by (simp add: B12_def spec_guard_def segments_def path_defs)

text \<open>
  The two also part the other way: \<open>normpath\<close> keeps a leading \<open>//\<close>, which does not
  begin with the characters \<open>/data\<close>, while its segments do begin with \<open>[data]\<close>.
\<close>

lemma B12_double_slash:
  "B12 wd (Str ''//data/x'') = Inr False \<and> spec_guard wd ''//data/x'' = Inr True"
  by (simp add: B12_def spec_guard_def segments_def path_defs numeral_2_eq_2)

text \<open>
  C2. The root itself is accepted; the sibling \<open>/database\<close>, which the specification
  wants rejected, is accepted as well.
\<close>

theorem B12_root_and_sibling:
  "B12 wd (Str ''/data'') = Inr True \<and> B12 wd (Str ''/database'') = Inr True"
  by (simp add: B12_def path_defs)

text \<open>
  C4. \<open>/data/../etc/passwd\<close> normalizes to \<open>/etc/passwd\<close>, and the guard rejects it,
  whatever the working directory.
\<close>

theorem B12_rejects_traversal:
  "abspath wd ''/data/../etc/passwd'' = Inr ''/etc/passwd'' \<and>
   B12 wd (Str ''/data/../etc/passwd'') = Inr False"
  by (simp add: B12_def path_defs)

text \<open>
  More generally, on an absolute path the loop of \<open>normpath\<close> never keeps a \<open>..\<close>, so no
  normalized absolute path climbs out of a directory it has entered.
\<close>

lemma norm_step_no_dotdot:
  "slashes \<noteq> 0 \<Longrightarrow> ''..'' \<notin> set new_comps
   \<Longrightarrow> ''..'' \<notin> set (norm_step slashes new_comps cmp)"
  by (auto simp add: norm_step_def dest: in_set_butlastD last_in_set)

lemma foldl_norm_step_no_dotdot:
  "slashes \<noteq> 0 \<Longrightarrow> ''..'' \<notin> set acc
   \<Longrightarrow> ''..'' \<notin> set (foldl (norm_step slashes) acc comps)"
proof (induction comps arbitrary: acc)
  case Nil
  then show ?case by simp
next
  case (Cons c comps)
  from Cons.prems have "''..'' \<notin> set (norm_step slashes acc c)"
    by (rule norm_step_no_dotdot)
  with Cons.prems(1) show ?case
    by (simp add: Cons.IH)
qed

text \<open>
  C9, as the code has it. On a string \<open>B12\<close> returns a boolean and raises nothing when
  the path is absolute or \<open>os.getcwd()\<close> answers; on a relative path, an exception of
  \<open>os.getcwd()\<close> is the exception of \<open>B12\<close>.
\<close>

theorem B12_total_on_strings:
  "(startswith s ''/'' \<or> (\<exists>d. getcwd = Inr d) \<longrightarrow> (\<exists>b. B12 getcwd (Str s) = Inr b)) \<and>
   (\<not> startswith s ''/'' \<and> getcwd = Inl e \<longrightarrow> B12 getcwd (Str s) = Inl e)"
proof (intro conjI impI)
  assume "startswith s ''/'' \<or> (\<exists>d. getcwd = Inr d)"
  then show "\<exists>b. B12 getcwd (Str s) = Inr b"
  proof
    assume "startswith s ''/''"
    then show ?thesis by (simp add: B12_absolute)
  next
    assume "\<exists>d. getcwd = Inr d"
    then obtain d where "getcwd = Inr d" ..
    then show ?thesis by (simp add: B12_with_cwd)
  qed
next
  assume "\<not> startswith s ''/'' \<and> getcwd = Inl e"
  then show "B12 getcwd (Str s) = Inl e"
    by (simp add: B12_relative_no_cwd)
qed

theorem B12_total_on_strings_witness:
  "startswith ''/data/x'' ''/'' \<and>
   \<not> startswith ''out.txt'' ''/'' \<and>
   B12 (Inl FileNotFoundError) (Str ''/data/x'') = Inr True \<and>
   B12 (Inr ''/tmp'') (Str ''out.txt'') = Inr False \<and>
   B12 (Inl FileNotFoundError) (Str ''out.txt'') = Inl FileNotFoundError"
proof -
  have a: "startswith ''/data/x'' ''/''" and r: "\<not> startswith ''out.txt'' ''/''"
    by (simp_all add: startswith_def)
  from a B12_total_on_strings [of "''/data/x''" "Inl FileNotFoundError"]
  obtain b1 where b1: "B12 (Inl FileNotFoundError) (Str ''/data/x'') = Inr b1"
    by blast
  from B12_total_on_strings [of "''out.txt''" "Inr ''/tmp''"]
  obtain b2 where b2: "B12 (Inr ''/tmp'') (Str ''out.txt'') = Inr b2"
    by blast
  from r B12_total_on_strings [of "''out.txt''" "Inl FileNotFoundError" FileNotFoundError]
  have b3: "B12 (Inl FileNotFoundError) (Str ''out.txt'') = Inl FileNotFoundError"
    by blast
  have "b1 = True" using b1 by (simp add: B12_def path_defs)
  moreover have "b2 = False" using b2 by (simp add: B12_def path_defs)
  ultimately show ?thesis using a r b1 b2 b3 by simp
qed

text \<open>
  C9, as the specification has it, asks for a boolean on every string, and for false on
  a malformed one. With the working directory removed, the relative path \<open>out.txt\<close>
  raises; and a string with an embedded NUL, which names no file, is accepted.
\<close>

theorem B12_raises_and_accepts_nul:
  "\<not> startswith ''out.txt'' ''/'' \<and>
   B12 (Inl FileNotFoundError) (Str ''out.txt'') = Inl FileNotFoundError \<and>
   CHR 0x00 \<in> set (''/data/'' @ [CHR 0x00]) \<and>
   B12 (Inr ''/app'') (Str (''/data/'' @ [CHR 0x00])) = Inr True"
  by (simp add: B12_def path_defs)

text \<open>The empty string, which names no file either, is accepted from inside the sandbox.\<close>

lemma B12_accepts_empty: "B12 (Inr ''/data'') (Str []) = Inr True"
  by (simp add: B12_def path_defs)

text \<open>
  C10. A relative path is judged against the working directory: the same string
  \<open>out.txt\<close> passes with the working directory \<open>/data\<close> and fails with \<open>/tmp\<close>.
\<close>

theorem B12_depends_on_cwd:
  "\<not> startswith ''out.txt'' ''/'' \<and>
   B12 (Inr ''/data'') (Str ''out.txt'') = Inr True \<and>
   B12 (Inr ''/tmp'') (Str ''out.txt'') = Inr False"
  by (simp add: B12_def path_defs)

section \<open>The tasks behind the guard\<close>



text \<open>
  C8. With the guard passed and a response in hand, \<open>B3\<close> raises \<open>HTTPError\<close> on a 4xx
  or 5xx status (what \<open>raise_for_status\<close> takes for failure) having done nothing but the
  request; on any other status its next step is to write the response text, unchanged,
  to \<open>save_path\<close>, and when that write succeeds it reports and returns.
\<close>

theorem B3_fetch:
  assumes "B12 (Inr (cwd w)) (Str save_path) = Inr True"
      and "requests_get w url = Inr response"
  shows "(400 \<le> status_code response \<and> status_code response < 600 \<longrightarrow>
            B3 w url save_path = ([HttpGet url], Inl HTTPError)) \<and>
         (\<not> (400 \<le> status_code response \<and> status_code response < 600) \<longrightarrow>
            (\<exists>es r. B3 w url save_path =
                      (HttpGet url # OpenWrite save_path (resp_text response) # es, r)) \<and>
            (file_write w save_path (resp_text response) = None \<longrightarrow>
               B3 w url save_path =
                 ([HttpGet url, OpenWrite save_path (resp_text response),
                   Print (''Data fetched from '' @ url @ '' and saved to '' @ save_path)],
                  Inr ())))"
  using assms
  by (simp add: B3_def deny1_ok bind_return) (auto simp add: io_defs split: option.splits)

theorem B3_fetch_witness:
  "B12 (Inr (cwd test_world)) (Str ''/data/page.html'') = Inr True \<and>
   B3 test_world ''http://example.com/missing'' ''/data/page.html''
     = ([HttpGet ''http://example.com/missing''], Inl HTTPError) \<and>
   B3 test_world ''http://example.com/ok'' ''/data/page.html''
     = ([HttpGet ''http://example.com/ok'', OpenWrite ''/data/page.html'' ''hello'',
         Print ''Data fetched from http://example.com/ok and saved to /data/page.html''],
        Inr ())"
proof -
  have g: "B12 (Inr (cwd test_world)) (Str ''/data/page.html'') = Inr True"
    by (simp add: test_world_def B12_def path_defs)
  have missing: "requests_get test_world ''http://example.com/missing''
                   = Inr \<lparr>status_code = 404, resp_text = ''Not Found''\<rparr>"
    by (simp add: test_world_def)
  have ok: "requests_get test_world ''http://example.com/ok''
              = Inr \<lparr>status_code = 200, resp_text = ''hello''\<rparr>"
    by (simp add: test_world_def)
  have wr: "file_write test_world ''/data/page.html'' ''hello'' = None"
    by (simp add: test_world_def)
  from B3_fetch [OF g missing] B3_fetch [OF g ok] g wr show ?thesis
    by simp
qed

text \<open>
  C5. \<open>B6\<close> never looks at the status. Against a server that answers 404 with the body
  \<open>Not Found\<close> it writes that body to the output file, reports success and returns,
  where \<open>B3\<close>, given the same response, raises.
\<close>

theorem B6_writes_error_body:
  "requests_get test_world ''http://example.com/missing''
     = Inr \<lparr>status_code = 404, resp_text = ''Not Found''\<rparr> \<and>
   B6 test_world ''http://example.com/missing'' ''/data/page.html''
     = ([HttpGet ''http://example.com/missing'',
         OpenWrite ''/data/page.html'' ''Not Found'',
         Print ''Web content from http://example.com/missing written to /data/page.html''],
        Inr ())"
  by (simp add: B6_def test_world_def B12_def path_defs io_defs)

text \<open>
  C6. With both paths inside the sandbox, the first thing \<open>B5\<close> does is connect to
  \<open>db_path\<close>: with SQLite when the path ends in \<open>.db\<close>, with DuckDB otherwise, and
  never with the other engine. When connecting, executing and writing succeed, it hands
  back the rows that the query fetched.
\<close>

theorem B5_engine_by_suffix:
  assumes "B12 (Inr (cwd w)) (Str db_path) = Inr True"
      and "B12 (Inr (cwd w)) (Str output_filename) = Inr True"
  shows "(endswith db_path ''.db'' \<longrightarrow>
            (\<exists>es r. B5 w db_path query output_filename = (DbConnect Sqlite db_path # es, r) \<and>
                    (\<forall>p. DbConnect Duckdb p \<notin> set es))) \<and>
         (\<not> endswith db_path ''.db'' \<longrightarrow>
            (\<exists>es r. B5 w db_path query output_filename = (DbConnect Duckdb db_path # es, r) \<and>
                    (\<forall>p. DbConnect Sqlite p \<notin> set es))) \<and>
         (db_connect w (if endswith db_path ''.db'' then Sqlite else Duckdb) db_path = None \<and>
          db_execute w (if endswith db_path ''.db'' then Sqlite else Duckdb) db_path query
            = Inr rows \<and>
          file_write w output_filename (str_rows w rows) = None \<longrightarrow>
            B5 w db_path query output_filename =
              ([DbConnect (if endswith db_path ''.db'' then Sqlite else Duckdb) db_path,
                DbExecute query, DbFetchAll, DbClose,
                OpenWrite output_filename (str_rows w rows),
                Print (''SQL query executed on '' @ db_path @ '' and results written to ''
                       @ output_filename)],
               Inr rows))"
  using assms
  by (simp add: B5_def deny2_ok bind_return)
     (auto simp add: io_defs split: option.splits sum.splits)

theorem B5_engine_by_suffix_witness:
  "B12 (Inr (cwd test_world)) (Str ''/data/foo.db'') = Inr True \<and>
   B12 (Inr (cwd test_world)) (Str ''/data/foo.duckdb'') = Inr True \<and>
   B12 (Inr (cwd test_world)) (Str ''/data/out.txt'') = Inr True \<and>
   endswith ''/data/foo.db'' ''.db'' \<and>
   \<not> endswith ''/data/foo.duckdb'' ''.db'' \<and>
   B5 test_world ''/data/foo.db'' ''SELECT 1'' ''/data/out.txt''
     = ([DbConnect Sqlite ''/data/foo.db'', DbExecute ''SELECT 1'', DbFetchAll, DbClose,
         OpenWrite ''/data/out.txt'' ''[(1,)]'',
         Print ''SQL query executed on /data/foo.db and results written to /data/out.txt''],
        Inr [[SqlInt 1]]) \<and>
   B5 test_world ''/data/foo.duckdb'' ''SELECT 1'' ''/data/out.txt''
     = ([DbConnect Duckdb ''/data/foo.duckdb'', DbExecute ''SELECT 1'', DbFetchAll, DbClose,
         OpenWrite ''/data/out.txt'' ''[(1,)]'',
         Print ''SQL query executed on /data/foo.duckdb and results written to /data/out.txt''],
        Inr [[SqlInt 1]])"
proof -
  have g1: "B12 (Inr (cwd test_world)) (Str ''/data/foo.db'') = Inr True"
    and g2: "B12 (Inr (cwd test_world)) (Str ''/data/foo.duckdb'') = Inr True"
    and g3: "B12 (Inr (cwd test_world)) (Str ''/data/out.txt'') = Inr True"
    by (simp_all add: test_world_def B12_def path_defs)
  have e1: "endswith ''/data/foo.db'' ''.db''"
    and e2: "\<not> endswith ''/data/foo.duckdb'' ''.db''"
    by (simp_all add: endswith_def)
  have c: "db_connect test_world eng p = None"
          "db_execute test_world eng p q = Inr [[SqlInt 1]]"
          "file_write test_world f t = None"
          "str_rows test_world rs = ''[(1,)]''" for eng p q f t rs
    by (simp_all add: test_world_def)
  from B5_engine_by_suffix [OF g1 g3, of "''SELECT 1''" "[[SqlInt 1]]"]
       B5_engine_by_suffix [OF g2 g3, of "''SELECT 1''" "[[SqlInt 1]]"]
       g1 g2 g3 e1 e2 c
  show ?thesis by simp
qed

text \<open>
  C7. With both paths inside the sandbox, the client library importable and no
  \<open>OPENAI_API_KEY\<close> in the environment, \<open>B8\<close> raises \<open>ValueError\<close> after the import and
  nothing else: no file has been opened for reading.
\<close>

theorem B8_missing_credential:
  assumes "B12 (Inr (cwd w)) (Str audio_path) = Inr True"
      and "B12 (Inr (cwd w)) (Str output_path) = Inr True"
      and "import_module w ''openai'' = None"
      and "environ w ''OPENAI_API_KEY'' = None"
  shows "B8 w audio_path output_path = ([ImportModule ''openai''], Inl ValueError) \<and>
         (\<forall>p. OpenRead p \<notin> set (fst (B8 w audio_path output_path)))"
  using assms by (simp add: B8_def deny2_ok bind_return) (simp add: io_defs)

theorem B8_missing_credential_witness:
  "B12 (Inr (cwd test_world)) (Str ''/data/talk.mp3'') = Inr True \<and>
   B12 (Inr (cwd test_world)) (Str ''/data/talk.txt'') = Inr True \<and>
   import_module test_world ''openai'' = None \<and>
   environ test_world ''OPENAI_API_KEY'' = None \<and>
   B8 test_world ''/data/talk.mp3'' ''/data/talk.txt''
     = ([ImportModule ''openai''], Inl ValueError)"
proof -
  have g1: "B12 (Inr (cwd test_world)) (Str ''/data/talk.mp3'') = Inr True"
    and g2: "B12 (Inr (cwd test_world)) (Str ''/data/talk.txt'') = Inr True"
    by (simp_all add: test_world_def B12_def path_defs)
  have m: "import_module test_world ''openai'' = None"
    by (simp add: test_world_def)
  have k: "environ test_world ''OPENAI_API_KEY'' = None"
    by (simp add: test_world_def)
  from B8_missing_credential [OF g1 g2 m k] g1 g2 m k show ?thesis
    by simp
qed

text \<open>
  When the import itself raises, that exception is what \<open>B8\<close> raises, key or no key, and
  again no file has been opened.
\<close>

lemma B8_import_error:
  assumes "B12 (Inr (cwd w)) (Str audio_path) = Inr True"
      and "B12 (Inr (cwd w)) (Str output_path) = Inr True"
      and "import_module w ''openai'' = Some e"
  shows "B8 w audio_path output_path = ([ImportModule ''openai''], Inl e)"
  using assms by (simp add: B8_def deny2_ok bind_return) (simp add: io_defs)

end
